theory Spec2Isabelle
  imports Complex_Main
begin

section \<open>The Collider component of the rapier binding\<close>

text \<open>
  A shallow embedding of \<^verbatim>\<open>packages/rapier/src/lib/components/Colliders/Collider.svelte\<close>.
  The component is glue between a scene graph, a reactive framework and a physics engine,
  so the model is a component state that is passed through the component's callbacks
  (\<^verbatim>\<open>onMount\<close>, the reactive block, the \<^verbatim>\<open>useFrame\<close> callback, \<^verbatim>\<open>onDestroy\<close>), a collider
  object that stores what its setters were given, and a chronological trace of every call the
  component makes into the physics world, the collider and the two shared registries.

  Where the component hands a JavaScript number on unchanged, or only subtracts and
  multiplies it (a vector subtraction and a quaternion product in \<^verbatim>\<open>onMount\<close>), the number
  is modelled as a \<^typ>\<open>real\<close> and the arithmetic is taken without rounding. Where the
  component tests a number for truthiness (density and mass), the number keeps the values
  that are no reals. \<^verbatim>\<open>undefined\<close> is \<^term>\<open>None\<close>.
\<close>

subsection \<open>Vectors and quaternions of the scene-graph library\<close>

record vector3 =
  v_x :: real
  v_y :: real
  v_z :: real

record quaternion =
  q_x :: real
  q_y :: real
  q_z :: real
  q_w :: real

text \<open>\<^verbatim>\<open>new Vector3()\<close> is the zero vector, \<^verbatim>\<open>new Quaternion()\<close> the identity rotation.\<close>

definition new_Vector3 :: vector3 where
  "new_Vector3 = \<lparr>v_x = 0, v_y = 0, v_z = 0\<rparr>"

definition new_Quaternion :: quaternion where
  "new_Quaternion = \<lparr>q_x = 0, q_y = 0, q_z = 0, q_w = 1\<rparr>"

text \<open>\<^verbatim>\<open>a.sub(b)\<close>: componentwise subtraction.\<close>

definition sub :: "vector3 \<Rightarrow> vector3 \<Rightarrow> vector3" where
  "sub a b = \<lparr>v_x = v_x a - v_x b, v_y = v_y a - v_y b, v_z = v_z a - v_z b\<rparr>"

text \<open>\<^verbatim>\<open>q.invert()\<close>: the library takes the quaternion as normalised and conjugates it.\<close>

definition invert :: "quaternion \<Rightarrow> quaternion" where
  "invert q = \<lparr>q_x = - q_x q, q_y = - q_y q, q_z = - q_z q, q_w = q_w q\<rparr>"

text \<open>\<^verbatim>\<open>multiplyQuaternions(a, b)\<close>: the Hamilton product \<open>a * b\<close>.\<close>

definition multiplyQuaternions :: "quaternion \<Rightarrow> quaternion \<Rightarrow> quaternion" where
  "multiplyQuaternions a b =
     \<lparr>q_x = q_x a * q_w b + q_w a * q_x b + q_y a * q_z b - q_z a * q_y b,
      q_y = q_y a * q_w b + q_w a * q_y b + q_z a * q_x b - q_x a * q_z b,
      q_z = q_z a * q_w b + q_w a * q_z b + q_x a * q_y b - q_y a * q_x b,
      q_w = q_w a * q_w b - q_x a * q_x b - q_y a * q_y b - q_z a * q_z b\<rparr>"

text \<open>\<^verbatim>\<open>this.premultiply(q)\<close> is \<^verbatim>\<open>multiplyQuaternions(q, this)\<close>.\<close>

definition premultiply :: "quaternion \<Rightarrow> quaternion \<Rightarrow> quaternion" where
  "premultiply this q = multiplyQuaternions q this"

subsection \<open>Scene-graph nodes\<close>

text \<open>
  An \<^verbatim>\<open>Object3D\<close> as the component sees it: the world position, world rotation and world
  scale that the \<^verbatim>\<open>getWorld...\<close> queries return once the world matrices are up to date, the
  \<^verbatim>\<open>userData.isRigidBody\<close> flag, and the parent node (\<^verbatim>\<open>null\<close> at the root).
\<close>

datatype object3d =
  Object3D (worldPosition: vector3) (worldQuaternion: quaternion) (worldScale: vector3)
           (isRigidBody: bool) (parent: "object3d option")

text \<open>
  \<^verbatim>\<open>traverseAncestors(callback)\<close> of the scene-graph library: if there is a parent, call the
  callback on it, then traverse the parent's ancestors. The callback mutates variables of
  the enclosing scope; here it transforms an accumulator.
\<close>

fun traverseAncestors :: "(object3d \<Rightarrow> 'a \<Rightarrow> 'a) \<Rightarrow> object3d \<Rightarrow> 'a \<Rightarrow> 'a" where
  "traverseAncestors callback (Object3D p q s f None) acc = acc"
| "traverseAncestors callback (Object3D p q s f (Some par)) acc =
     traverseAncestors callback par (callback par acc)"

subsection \<open>Properties of the component\<close>

datatype shape =
    Shape_ball | Shape_capsule | Shape_segment | Shape_triangle | Shape_roundTriangle
  | Shape_polyline | Shape_trimesh | Shape_cuboid | Shape_roundCuboid | Shape_heightfield
  | Shape_cylinder | Shape_roundCylinder | Shape_cone | Shape_roundCone | Shape_convexHull
  | Shape_convexMesh | Shape_roundConvexHull | Shape_roundConvexMesh

datatype CoefficientCombineRule = Rule_Average | Rule_Min | Rule_Multiply | Rule_Max

datatype ActiveCollisionTypes = Types_DEFAULT | Types_ALL

text \<open>
  A JavaScript number with the values that are not finite: \<^verbatim>\<open>NaN\<close>, \<^verbatim>\<open>Infinity\<close> and
  \<^verbatim>\<open>-Infinity\<close>. Both zeros of the doubles are \<open>Number 0\<close>.
\<close>

datatype number = Number real | NaN | PosInfinity | NegInfinity

text \<open>The object given as \<^verbatim>\<open>massProperties\<close>; positions and the rotation as triples of numbers.\<close>

record massProperties =
  mp_mass :: real
  mp_centerOfMass :: vector3
  mp_principalAngularInertia :: vector3
  mp_angularInertiaLocalFrame :: vector3

record props =
  shape :: shape
  args :: "real list"
  restitution :: "real option"
  restitutionCombineRule :: "CoefficientCombineRule option"
  friction :: "real option"
  frictionCombineRule :: "CoefficientCombineRule option"
  sensor :: "bool option"
  contactForceEventThreshold :: "real option"
  density :: "number option"
  mass :: "number option"
  massProperties :: "massProperties option"

text \<open>The parent rigid body handed down by the context, with its \<^verbatim>\<open>userData.hasEventListeners\<close>.\<close>

record rigid_body =
  rb_handle :: nat
  rb_hasEventListeners :: bool

subsection \<open>Calls into the physics engine and the registries\<close>

text \<open>
  One constructor per call the component makes. \<^verbatim>\<open>CreateCollider\<close> records the shape, the
  arguments and the world scale that \<^verbatim>\<open>scaleColliderArgs\<close> and the descriptor constructor
  are given, and the parent body; \<^verbatim>\<open>SetMassProperties\<close> records the property object whose
  fields the position and rotation converters are given. Registry calls carry the handle of
  the collider.
\<close>

datatype call =
    CreateCollider shape "real list" vector3 "rigid_body option"
  | AddColliderToContext nat
  | RegisterColliders "nat list"
  | SetTranslationWrtParent vector3
  | SetRotationWrtParent quaternion
  | SetTranslation vector3
  | SetRotation quaternion
  | ApplyColliderActiveEvents bool bool
  | SetActiveCollisionTypes ActiveCollisionTypes
  | SetRestitution real
  | SetContactForceEventThreshold real
  | SetRestitutionCombineRule CoefficientCombineRule
  | SetFriction real
  | SetFrictionCombineRule CoefficientCombineRule
  | SetSensor bool
  | SetDensity number
  | SetMass number
  | SetMassProperties massProperties
  | RemoveColliderFromContext nat
  | RemoveColliders "nat list"
  | RemoveCollider nat bool

text \<open>
  The collider: its identity, the body it was created on, and for every setter the value it
  was last given (\<^term>\<open>None\<close>: never set by the component, the engine's default stands).
\<close>

record collider =
  c_handle :: nat
  c_parent :: "rigid_body option"
  c_translation :: "vector3 option"
  c_rotation :: "quaternion option"
  c_translationWrtParent :: "vector3 option"
  c_rotationWrtParent :: "quaternion option"
  c_activeEvents :: "bool option"
  c_activeCollisionTypes :: "ActiveCollisionTypes option"
  c_restitution :: "real option"
  c_restitutionCombineRule :: "CoefficientCombineRule option"
  c_friction :: "real option"
  c_frictionCombineRule :: "CoefficientCombineRule option"
  c_sensor :: "bool option"
  c_contactForceEventThreshold :: "real option"
  c_density :: "number option"
  c_mass :: "number option"
  c_massProperties :: "massProperties option"

definition createCollider :: "nat \<Rightarrow> rigid_body option \<Rightarrow> collider" where
  "createCollider h rb =
     \<lparr>c_handle = h, c_parent = rb, c_translation = None, c_rotation = None,
      c_translationWrtParent = None, c_rotationWrtParent = None, c_activeEvents = None,
      c_activeCollisionTypes = None, c_restitution = None, c_restitutionCombineRule = None,
      c_friction = None, c_frictionCombineRule = None, c_sensor = None,
      c_contactForceEventThreshold = None, c_density = None, c_mass = None,
      c_massProperties = None\<rparr>"

text \<open>
  What a call does to the collider it is made on. Calls on the world and on the registries
  leave the collider as it is.

  Modelled from the spec: \<^verbatim>\<open>applyColliderActiveEvents\<close> (lib/applyColliderActiveEvents, not
  part of the component's file) derives the active-event flags "from whether any listener is
  registered on this component or its parent body".
\<close>

fun exec_call :: "call \<Rightarrow> collider \<Rightarrow> collider" where
  "exec_call (SetTranslationWrtParent v) c = c\<lparr>c_translationWrtParent := Some v\<rparr>"
| "exec_call (SetRotationWrtParent q) c = c\<lparr>c_rotationWrtParent := Some q\<rparr>"
| "exec_call (SetTranslation v) c = c\<lparr>c_translation := Some v\<rparr>"
| "exec_call (SetRotation q) c = c\<lparr>c_rotation := Some q\<rparr>"
| "exec_call (ApplyColliderActiveEvents own body) c = c\<lparr>c_activeEvents := Some (own \<or> body)\<rparr>"
| "exec_call (SetActiveCollisionTypes t) c = c\<lparr>c_activeCollisionTypes := Some t\<rparr>"
| "exec_call (SetRestitution r) c = c\<lparr>c_restitution := Some r\<rparr>"
| "exec_call (SetContactForceEventThreshold r) c = c\<lparr>c_contactForceEventThreshold := Some r\<rparr>"
| "exec_call (SetRestitutionCombineRule r) c = c\<lparr>c_restitutionCombineRule := Some r\<rparr>"
| "exec_call (SetFriction r) c = c\<lparr>c_friction := Some r\<rparr>"
| "exec_call (SetFrictionCombineRule r) c = c\<lparr>c_frictionCombineRule := Some r\<rparr>"
| "exec_call (SetSensor b) c = c\<lparr>c_sensor := Some b\<rparr>"
| "exec_call (SetDensity d) c = c\<lparr>c_density := Some d\<rparr>"
| "exec_call (SetMass m) c = c\<lparr>c_mass := Some m\<rparr>"
| "exec_call (SetMassProperties mp) c = c\<lparr>c_massProperties := Some mp\<rparr>"
| "exec_call (CreateCollider sh as sc rb) c = c"
| "exec_call (AddColliderToContext h) c = c"
| "exec_call (RegisterColliders hs) c = c"
| "exec_call (RemoveColliderFromContext h) c = c"
| "exec_call (RemoveColliders hs) c = c"
| "exec_call (RemoveCollider h wake) c = c"

fun exec_calls :: "call list \<Rightarrow> collider \<Rightarrow> collider" where
  "exec_calls [] c = c"
| "exec_calls (k # ks) c = exec_calls ks (exec_call k c)"

subsection \<open>The component\<close>

text \<open>
  The component's variables: its properties, the node \<^verbatim>\<open>object\<close>, the \<^verbatim>\<open>rigidBody\<close> of the
  context, the exported \<^verbatim>\<open>collider\<close>, whether the component has event listeners, whether the
  frame handler registered by \<^verbatim>\<open>useFrame\<close> is running, the handle the world gives to the next
  collider it creates, and the trace of calls made so far (oldest first).
\<close>

record component =
  props :: props
  object :: object3d
  rigidBody :: "rigid_body option"
  collider :: "collider option"
  colliderHasEventListeners :: bool
  frameStarted :: bool
  nextHandle :: nat
  calls :: "call list"

text \<open>\<^verbatim>\<open>const isAttached = !!rigidBody\<close>\<close>

definition isAttached :: "component \<Rightarrow> bool" where
  "isAttached s = (rigidBody s \<noteq> None)"

text \<open>
  The state after the component's script has run: no collider yet, no call made (the first
  run of the reactive block finds no collider), and the frame handler registered with
  \<^verbatim>\<open>autostart: !isAttached\<close>.
\<close>

definition init_component ::
  "props \<Rightarrow> object3d \<Rightarrow> rigid_body option \<Rightarrow> bool \<Rightarrow> nat \<Rightarrow> component" where
  "init_component p obj rb listeners h =
     \<lparr>props = p, object = obj, rigidBody = rb, collider = None,
      colliderHasEventListeners = listeners, frameStarted = (rb = None),
      nextHandle = h, calls = []\<rparr>"

text \<open>Make the calls \<open>ks\<close> on the collider \<open>c\<close> of the component, in order.\<close>

definition perform :: "call list \<Rightarrow> collider \<Rightarrow> component \<Rightarrow> component" where
  "perform ks c s = s\<lparr>collider := Some (exec_calls ks c), calls := calls s @ ks\<rparr>"

subsubsection \<open>onMount\<close>

text \<open>The callback given to \<^verbatim>\<open>traverseAncestors\<close> (lines 171 to 175).\<close>

definition rigidBody_callback ::
  "object3d \<Rightarrow> vector3 \<times> quaternion \<Rightarrow> vector3 \<times> quaternion" where
  "rigidBody_callback child acc =
     (if isRigidBody child then (worldPosition child, invert (worldQuaternion child)) else acc)"

text \<open>The pose handed to the two \<^verbatim>\<open>...WrtParent\<close> setters (lines 168 to 180).\<close>

definition attached_pose :: "object3d \<Rightarrow> vector3 \<times> quaternion" where
  "attached_pose obj =
     (let (rigidBodyWorldPos, rigidBodyWorldQuatInversed) =
            traverseAncestors rigidBody_callback obj (new_Vector3, new_Quaternion);
          worldPosition' = sub (worldPosition obj) rigidBodyWorldPos;
          worldRotation' = premultiply (worldQuaternion obj) rigidBodyWorldQuatInversed
      in (worldPosition', worldRotation'))"

definition onMount_calls :: "component \<Rightarrow> nat \<Rightarrow> call list" where
  "onMount_calls s h =
     [CreateCollider (shape (props s)) (args (props s)) (worldScale (object s)) (rigidBody s),
      AddColliderToContext h,
      RegisterColliders [h]] @
     (if isAttached s
      then [SetTranslationWrtParent (fst (attached_pose (object s))),
            SetRotationWrtParent (snd (attached_pose (object s)))]
      else [SetTranslation (worldPosition (object s)),
            SetRotation (worldQuaternion (object s))])"

definition onMount :: "component \<Rightarrow> component" where
  "onMount s =
     (let h = nextHandle s
      in perform (onMount_calls s h) (createCollider h (rigidBody s))
           (s\<lparr>nextHandle := Suc h\<rparr>))"

subsubsection \<open>The reactive block\<close>

text \<open>
  \<^verbatim>\<open>if (density)\<close>, \<^verbatim>\<open>if (mass)\<close>: \<^verbatim>\<open>undefined\<close> is falsy, and a number is truthy unless it
  is zero or \<^verbatim>\<open>NaN\<close>. \<^verbatim>\<open>if (massProperties)\<close>: an object is truthy.
\<close>

fun truthy :: "number \<Rightarrow> bool" where
  "truthy (Number x) = (x \<noteq> 0)"
| "truthy NaN = False"
| "truthy PosInfinity = True"
| "truthy NegInfinity = True"

text \<open>\<^verbatim>\<open>v ?? d\<close>\<close>

definition nullish :: "'a option \<Rightarrow> 'a \<Rightarrow> 'a" where
  "nullish v d = (case v of None \<Rightarrow> d | Some x \<Rightarrow> x)"

definition reactive_calls :: "component \<Rightarrow> call list" where
  "reactive_calls s =
     (let p = props s in
      [ApplyColliderActiveEvents (colliderHasEventListeners s)
         (case rigidBody s of None \<Rightarrow> False | Some rb \<Rightarrow> rb_hasEventListeners rb),
       SetActiveCollisionTypes Types_ALL,
       SetRestitution (nullish (restitution p) 0),
       SetContactForceEventThreshold 1,
       SetRestitutionCombineRule (nullish (restitutionCombineRule p) Rule_Average),
       SetFriction (nullish (friction p) 0.7),
       SetFrictionCombineRule (nullish (frictionCombineRule p) Rule_Average),
       SetSensor (nullish (sensor p) False),
       SetContactForceEventThreshold (nullish (contactForceEventThreshold p) 0)] @
      (case density p of None \<Rightarrow> [] | Some d \<Rightarrow> if truthy d then [SetDensity d] else []) @
      (case mass p of None \<Rightarrow> [] | Some m \<Rightarrow> if truthy m then [SetMass m] else []) @
      (case massProperties p of None \<Rightarrow> [] | Some mp \<Rightarrow> [SetMassProperties mp]))"

definition reactive_block :: "component \<Rightarrow> component" where
  "reactive_block s =
     (case collider s of
        None \<Rightarrow> s
      | Some c \<Rightarrow> perform (reactive_calls s) c s)"

subsubsection \<open>The frame callback\<close>

definition useFrame_callback :: "component \<Rightarrow> component" where
  "useFrame_callback s =
     (case collider s of
        None \<Rightarrow> s
      | Some c \<Rightarrow>
          perform [SetTranslation (worldPosition (object s)),
                   SetRotation (worldQuaternion (object s))] c s)"

subsubsection \<open>onDestroy\<close>

definition onDestroy :: "component \<Rightarrow> component" where
  "onDestroy s =
     (case collider s of
        None \<Rightarrow> s
      | Some c \<Rightarrow>
          perform [RemoveColliderFromContext (c_handle c),
                   RemoveColliders [c_handle c],
                   RemoveCollider (c_handle c) True] c s)"

subsection \<open>The component's life after its script has run\<close>

text \<open>
  What the frameworks do to the component: the parent changes its properties (the reactive
  block runs again), the frame loop ticks, the transforms of the scene graph change (the node
  then answers the world queries differently), the component is unmounted.

  Modelled from the spec: \<^verbatim>\<open>useFrame\<close> (package core, not part of the component's file) is
  "a per-frame callback registration with an auto-start option"; the callback runs on a
  frame only while the handler is started, and unmounting the component stops the handler.
\<close>

datatype event =
    PropsChanged props
  | Frame
  | SceneChanged object3d
  | Destroy

fun step :: "event \<Rightarrow> component \<Rightarrow> component" where
  "step (PropsChanged p) s = reactive_block (s\<lparr>props := p\<rparr>)"
| "step Frame s = (if frameStarted s then useFrame_callback s else s)"
| "step (SceneChanged obj) s = s\<lparr>object := obj\<rparr>"
| "step Destroy s = (onDestroy s)\<lparr>frameStarted := False\<rparr>"

fun run :: "event list \<Rightarrow> component \<Rightarrow> component" where
  "run [] s = s"
| "run (e # es) s = run es (step e s)"

text \<open>The calls an operation has added to the trace of \<open>s\<close>.\<close>

definition new_calls :: "component \<Rightarrow> component \<Rightarrow> call list" where
  "new_calls s s' = drop (length (calls s)) (calls s')"

subsection \<open>Reading the trace\<close>

text \<open>The chain of ancestors of a node, the parent first and the root last.\<close>

fun ancestors :: "object3d \<Rightarrow> object3d list" where
  "ancestors (Object3D p q s f None) = []"
| "ancestors (Object3D p q s f (Some par)) = par # ancestors par"

fun is_pose_wrt_parent :: "call \<Rightarrow> bool" where
  "is_pose_wrt_parent (SetTranslationWrtParent v) = True"
| "is_pose_wrt_parent (SetRotationWrtParent q) = True"
| "is_pose_wrt_parent k = False"

fun is_mass_config :: "call \<Rightarrow> bool" where
  "is_mass_config (SetDensity d) = True"
| "is_mass_config (SetMass m) = True"
| "is_mass_config (SetMassProperties mp) = True"
| "is_mass_config k = False"

fun is_threshold :: "call \<Rightarrow> bool" where
  "is_threshold (SetContactForceEventThreshold t) = True"
| "is_threshold k = False"

fun is_removal :: "call \<Rightarrow> bool" where
  "is_removal (RemoveColliderFromContext h) = True"
| "is_removal (RemoveColliders hs) = True"
| "is_removal (RemoveCollider h wake) = True"
| "is_removal k = False"

fun is_SetDensity :: "call \<Rightarrow> bool" where
  "is_SetDensity (SetDensity d) = True"
| "is_SetDensity k = False"

fun is_SetMass :: "call \<Rightarrow> bool" where
  "is_SetMass (SetMass m) = True"
| "is_SetMass k = False"

text \<open>The pose relative to the parent body that the collider was last given, if the collider
  exists.\<close>

definition relative_pose :: "component \<Rightarrow> (vector3 option \<times> quaternion option) option" where
  "relative_pose s =
     map_option (\<lambda>c. (c_translationWrtParent c, c_rotationWrtParent c)) (collider s)"

text \<open>
  The relative pose in the words of the specification, for comparison with
  \<^const>\<open>attached_pose\<close>: find the nearest ancestor flagged as a rigid-body anchor, take its
  world position and the inverse of its world rotation, and express the node's world
  position and rotation in that frame.
\<close>

definition nearest_anchor_pose :: "object3d \<Rightarrow> vector3 \<times> quaternion" where
  "nearest_anchor_pose obj =
     (case filter isRigidBody (ancestors obj) of
        [] \<Rightarrow> (worldPosition obj, worldQuaternion obj)
      | nearest # farther \<Rightarrow>
          (sub (worldPosition obj) (worldPosition nearest),
           premultiply (worldQuaternion obj) (invert (worldQuaternion nearest))))"

subsection \<open>Concrete components\<close>

text \<open>A node without parent, the same node after it was moved, and a component without any
  override of the material, mounted on that node without a rigid body.\<close>

definition example_node :: object3d where
  "example_node =
     Object3D \<lparr>v_x = 1, v_y = 2, v_z = 3\<rparr> new_Quaternion \<lparr>v_x = 1, v_y = 1, v_z = 1\<rparr> False None"

definition example_moved_node :: object3d where
  "example_moved_node =
     Object3D \<lparr>v_x = 4, v_y = 0, v_z = -1\<rparr> \<lparr>q_x = 0, q_y = 1, q_z = 0, q_w = 0\<rparr>
       \<lparr>v_x = 1, v_y = 1, v_z = 1\<rparr> False None"

definition example_props :: props where
  "example_props =
     \<lparr>shape = Shape_ball, args = [1], restitution = None, restitutionCombineRule = None,
      friction = None, frictionCombineRule = None, sensor = None,
      contactForceEventThreshold = None, density = None, mass = None, massProperties = None\<rparr>"

definition example_mounted :: component where
  "example_mounted = onMount (init_component example_props example_node None False 0)"

text \<open>The same component with other properties.\<close>

definition example_with :: "props \<Rightarrow> component" where
  "example_with p = onMount (init_component p example_node None False 0)"

definition example_massProperties :: massProperties where
  "example_massProperties =
     \<lparr>mp_mass = 2, mp_centerOfMass = \<lparr>v_x = 0, v_y = 0, v_z = 0\<rparr>,
      mp_principalAngularInertia = \<lparr>v_x = 1, v_y = 1, v_z = 1\<rparr>,
      mp_angularInertiaLocalFrame = \<lparr>v_x = 0, v_y = 0, v_z = 0\<rparr>\<rparr>"

text \<open>
  A rigid body, and two scenes for a component attached to it: a node under a rigid-body
  anchor that is itself under another rigid-body anchor, and a node under a parent that is
  not flagged.
\<close>

definition example_body :: rigid_body where
  "example_body = \<lparr>rb_handle = 3, rb_hasEventListeners = False\<rparr>"

definition nested_outer :: object3d where
  "nested_outer =
     Object3D \<lparr>v_x = 5, v_y = 0, v_z = 0\<rparr> \<lparr>q_x = 0, q_y = 1, q_z = 0, q_w = 0\<rparr>
       \<lparr>v_x = 1, v_y = 1, v_z = 1\<rparr> True None"

definition nested_inner :: object3d where
  "nested_inner =
     Object3D \<lparr>v_x = 1, v_y = 0, v_z = 0\<rparr> new_Quaternion \<lparr>v_x = 1, v_y = 1, v_z = 1\<rparr> True
       (Some nested_outer)"

definition nested_node :: object3d where
  "nested_node =
     Object3D \<lparr>v_x = 2, v_y = 0, v_z = 0\<rparr> new_Quaternion \<lparr>v_x = 1, v_y = 1, v_z = 1\<rparr> False
       (Some nested_inner)"

definition unflagged_node :: object3d where
  "unflagged_node =
     Object3D \<lparr>v_x = 2, v_y = 5, v_z = 0\<rparr> \<lparr>q_x = 0, q_y = 1, q_z = 0, q_w = 0\<rparr>
       \<lparr>v_x = 1, v_y = 1, v_z = 1\<rparr> False (Some example_node)"


section \<open>Properties\<close>

subsection \<open>Auxiliary facts\<close>

lemma calls_perform [simp]: "calls (perform ks c s) = calls s @ ks"
  by (simp add: perform_def)

lemma collider_perform [simp]: "collider (perform ks c s) = Some (exec_calls ks c)"
  by (simp add: perform_def)

lemma frameStarted_perform [simp]: "frameStarted (perform ks c s) = frameStarted s"
  by (simp add: perform_def)

lemma object_perform [simp]: "object (perform ks c s) = object s"
  by (simp add: perform_def)

lemma rigidBody_perform [simp]: "rigidBody (perform ks c s) = rigidBody s"
  by (simp add: perform_def)

lemma props_perform [simp]: "props (perform ks c s) = props s"
  by (simp add: perform_def)

lemma new_calls_perform [simp]: "new_calls s (perform ks c s) = ks"
  by (simp add: new_calls_def)

lemma exec_calls_append: "exec_calls (ks @ ks') c = exec_calls ks' (exec_calls ks c)"
  by (induction ks arbitrary: c) simp_all

lemma c_handle_exec_call [simp]: "c_handle (exec_call k c) = c_handle c"
  by (cases k) simp_all

lemma c_handle_exec_calls [simp]: "c_handle (exec_calls ks c) = c_handle c"
  by (induction ks arbitrary: c) simp_all

lemma example_with_collider: "collider (example_with p) \<noteq> None"
  by (simp add: example_with_def onMount_def Let_def)

lemma example_with_props: "props (example_with p) = p"
  by (simp add: example_with_def onMount_def init_component_def Let_def)

lemma example_mounted_collider: "collider example_mounted \<noteq> None"
  by (simp add: example_mounted_def onMount_def Let_def)

lemma example_mounted_props: "props example_mounted = example_props"
  by (simp add: example_mounted_def onMount_def init_component_def Let_def)

subsection \<open>Pose synchronisation without a rigid body\<close>

lemma step_running:
  "collider s \<noteq> None \<Longrightarrow> frameStarted s \<Longrightarrow> e \<noteq> Destroy \<Longrightarrow>
   collider (step e s) \<noteq> None \<and> frameStarted (step e s)"
  by (cases e) (auto simp: reactive_block_def useFrame_callback_def)

lemma run_running:
  "collider s \<noteq> None \<Longrightarrow> frameStarted s \<Longrightarrow> Destroy \<notin> set es \<Longrightarrow>
   collider (run es s) \<noteq> None \<and> frameStarted (run es s)"
proof (induction es arbitrary: s)
  case Nil
  then show ?case by simp
next
  case (Cons e es)
  from Cons.prems have "e \<noteq> Destroy" and rest: "Destroy \<notin> set es" by auto
  with Cons.prems have "collider (step e s) \<noteq> None \<and> frameStarted (step e s)"
    using step_running by blast
  with rest show ?case using Cons.IH by simp
qed

lemma onMount_unattached_running:
  "collider (onMount (init_component p obj None l h)) \<noteq> None \<and>
   frameStarted (onMount (init_component p obj None l h))"
  by (simp add: onMount_def init_component_def Let_def)

lemma useFrame_callback_pose:
  "collider s = Some c \<Longrightarrow>
   map_option c_translation (collider (useFrame_callback s)) =
     Some (Some (worldPosition (object s))) \<and>
   map_option c_rotation (collider (useFrame_callback s)) =
     Some (Some (worldQuaternion (object s))) \<and>
   object (useFrame_callback s) = object s"
  by (simp add: useFrame_callback_def)

text \<open>
  Claim C1. A component without rigid body is mounted and then lives through any events
  \<open>es\<close> short of its unmounting: frames, changes of the scene graph, changes of its
  properties. Whatever these were, the next frame leaves the collider (which exists) with
  the translation and the rotation that the node answers as its world position and world
  rotation at that frame, and the frame does not touch the node.
\<close>

theorem unattached_frame_sync:
  assumes "Destroy \<notin> set es"
  shows "let before = run es (onMount (init_component p obj None l h));
             s' = step Frame before
         in map_option c_translation (collider s') =
              Some (Some (worldPosition (object before))) \<and>
            map_option c_rotation (collider s') =
              Some (Some (worldQuaternion (object before))) \<and>
            object s' = object before"
proof -
  define before where "before = run es (onMount (init_component p obj None l h))"
  have "collider before \<noteq> None \<and> frameStarted before"
    unfolding before_def using run_running onMount_unattached_running assms by blast
  then obtain c where c: "collider before = Some c" and fs: "frameStarted before" by auto
  from useFrame_callback_pose [OF c] fs show ?thesis
    unfolding before_def [symmetric] Let_def by simp
qed

theorem unattached_frame_sync_witness:
  "Destroy \<notin> set [Frame, SceneChanged example_moved_node, PropsChanged example_props] \<and>
   (let before = run [Frame, SceneChanged example_moved_node, PropsChanged example_props]
                   (onMount (init_component example_props example_node None False 0));
        s' = step Frame before
    in map_option c_translation (collider s') = Some (Some (worldPosition (object before))) \<and>
       map_option c_rotation (collider s') = Some (Some (worldQuaternion (object before))) \<and>
       object s' = object before)"
proof -
  have h: "Destroy \<notin> set [Frame, SceneChanged example_moved_node, PropsChanged example_props]"
    by simp
  from unattached_frame_sync [OF h, of example_props example_node False 0] h
  show ?thesis by blast
qed

subsection \<open>Before the collider exists\<close>

lemma step_before_init:
  "collider s = None \<Longrightarrow> calls (step e s) = calls s \<and> collider (step e s) = None"
  by (cases e) (simp_all add: reactive_block_def useFrame_callback_def onDestroy_def)

lemma run_before_init:
  "collider s = None \<Longrightarrow> calls (run es s) = calls s \<and> collider (run es s) = None"
proof (induction es arbitrary: s)
  case Nil
  then show ?case by simp
next
  case (Cons e es)
  have "calls (step e s) = calls s" and none: "collider (step e s) = None"
    using step_before_init [OF Cons.prems] by simp_all
  with Cons.IH [OF none] show ?case by simp
qed

text \<open>
  Claim C6. While the collider is undefined, the frame callback, the reactive block and
  \<^verbatim>\<open>onDestroy\<close> each return the component as it is, so none of them makes a call; and any
  sequence of events before the initialisation, an unmounting among them, leaves the trace
  of calls as it was and the collider undefined.
\<close>

theorem no_collider_no_op:
  assumes "collider s = None"
  shows "useFrame_callback s = s \<and> reactive_block s = s \<and> onDestroy s = s \<and>
         calls (run es s) = calls s \<and> collider (run es s) = None"
  using assms run_before_init [OF assms, of es]
  by (simp add: useFrame_callback_def reactive_block_def onDestroy_def)

theorem no_collider_no_op_witness:
  "collider (init_component example_props example_node None False 0) = None \<and>
   useFrame_callback (init_component example_props example_node None False 0) =
     init_component example_props example_node None False 0 \<and>
   reactive_block (init_component example_props example_node None False 0) =
     init_component example_props example_node None False 0 \<and>
   onDestroy (init_component example_props example_node None False 0) =
     init_component example_props example_node None False 0 \<and>
   calls (run [Frame, PropsChanged example_props, Destroy]
            (init_component example_props example_node None False 0)) = []"
proof -
  have h: "collider (init_component example_props example_node None False 0) = None"
    by (simp add: init_component_def)
  have "calls (init_component example_props example_node None False 0) = []"
    by (simp add: init_component_def)
  with no_collider_no_op [OF h, of "[Frame, PropsChanged example_props, Destroy]"] h
  show ?thesis by simp
qed

subsection \<open>Teardown\<close>

lemma removal_reactive_calls [simp]: "filter is_removal (reactive_calls s) = []"
  by (simp add: reactive_calls_def Let_def split: option.splits)

lemma removal_onMount_calls [simp]: "filter is_removal (onMount_calls s h) = []"
  by (simp add: onMount_calls_def)

lemma step_mounted:
  "collider s = Some c \<Longrightarrow> e \<noteq> Destroy \<Longrightarrow>
   (\<exists>c'. collider (step e s) = Some c' \<and> c_handle c' = c_handle c) \<and>
   filter is_removal (calls (step e s)) = filter is_removal (calls s)"
  by (cases e) (simp_all add: reactive_block_def useFrame_callback_def)

lemma run_mounted:
  "collider s = Some c \<Longrightarrow> Destroy \<notin> set es \<Longrightarrow>
   (\<exists>c'. collider (run es s) = Some c' \<and> c_handle c' = c_handle c) \<and>
   filter is_removal (calls (run es s)) = filter is_removal (calls s)"
proof (induction es arbitrary: s c)
  case Nil
  then show ?case by simp
next
  case (Cons e es)
  from Cons.prems have ne: "e \<noteq> Destroy" and rest: "Destroy \<notin> set es" by auto
  from step_mounted [OF Cons.prems(1) ne]
  obtain c' where c': "collider (step e s) = Some c'" and h: "c_handle c' = c_handle c"
    and tr: "filter is_removal (calls (step e s)) = filter is_removal (calls s)" by blast
  from Cons.IH [OF c' rest] h tr show ?case by simp
qed

lemma onDestroy_calls:
  "collider s = Some c \<Longrightarrow>
   new_calls s (step Destroy s) =
     [RemoveColliderFromContext (c_handle c), RemoveColliders [c_handle c],
      RemoveCollider (c_handle c) True]"
  by (simp add: onDestroy_def new_calls_def)

lemma onMount_collider:
  "\<exists>c. collider (onMount s) = Some c \<and> c_handle c = nextHandle s"
  by (simp add: onMount_def Let_def createCollider_def)

lemma onMount_no_removal:
  "filter is_removal (calls (onMount s)) = filter is_removal (calls s)"
  by (simp add: onMount_def Let_def)

text \<open>
  Claim C7. A component is mounted (the world hands out the collider \<open>h\<close>) and lives through
  any events \<open>es\<close> short of its unmounting. Unmounting it then makes exactly three calls:
  one removal of \<open>h\<close> from the registry of the world context, one removal of \<open>h\<close> from the
  registry of the collision groups, and one removal of \<open>h\<close> from the physics world with the
  wake-up flag set; and no removal was called before.
\<close>

theorem teardown_removes_once:
  assumes "Destroy \<notin> set es"
  shows "let s = run es (onMount (init_component p obj rb l h))
         in new_calls s (step Destroy s) =
              [RemoveColliderFromContext h, RemoveColliders [h], RemoveCollider h True] \<and>
            filter is_removal (calls s) = []"
proof -
  define s0 where "s0 = init_component p obj rb l h"
  define s where "s = run es (onMount s0)"
  obtain c0 where c0: "collider (onMount s0) = Some c0" and h0: "c_handle c0 = h"
    using onMount_collider [of s0] by (auto simp: s0_def init_component_def)
  from run_mounted [OF c0 assms]
  obtain c where c: "collider s = Some c" and hc: "c_handle c = h"
    and tr: "filter is_removal (calls s) = filter is_removal (calls (onMount s0))"
    unfolding s_def using h0 by auto
  have "filter is_removal (calls s) = []"
    using tr onMount_no_removal [of s0] by (simp add: s0_def init_component_def)
  with onDestroy_calls [OF c] hc show ?thesis
    unfolding s_def s0_def Let_def by simp
qed

theorem teardown_removes_once_witness:
  "Destroy \<notin> set [Frame, PropsChanged example_props, Frame] \<and>
   (let s = run [Frame, PropsChanged example_props, Frame]
              (onMount (init_component example_props example_node None False 7))
    in new_calls s (step Destroy s) =
         [RemoveColliderFromContext 7, RemoveColliders [7], RemoveCollider 7 True] \<and>
       filter is_removal (calls s) = [])"
proof -
  have h: "Destroy \<notin> set [Frame, PropsChanged example_props, Frame]"
    by simp
  from teardown_removes_once [OF h, of example_props example_node None False 7] h
  show ?thesis by blast
qed

subsection \<open>The reactive block\<close>

text \<open>
  Claim C8. Every run of the reactive block on an existing collider calls the setter of the
  contact-force-event threshold exactly twice: first with the fixed value 1, later with the
  component's \<^verbatim>\<open>contactForceEventThreshold\<close> when that is set, and with 0 when it is
  undefined; and the second value is the one the collider is left with.
\<close>

theorem threshold_final_value:
  assumes "collider s \<noteq> None"
  shows "filter is_threshold (new_calls s (reactive_block s)) =
           [SetContactForceEventThreshold 1,
            SetContactForceEventThreshold
              (case contactForceEventThreshold (props s) of None \<Rightarrow> 0 | Some t \<Rightarrow> t)] \<and>
         map_option c_contactForceEventThreshold (collider (reactive_block s)) =
           Some (Some (case contactForceEventThreshold (props s) of None \<Rightarrow> 0 | Some t \<Rightarrow> t))"
  using assms
  by (auto simp add: reactive_block_def reactive_calls_def nullish_def Let_def
      split: option.splits)

theorem threshold_final_value_witness:
  "(collider (example_with (example_props\<lparr>contactForceEventThreshold := Some 5\<rparr>)) \<noteq> None \<and>
    filter is_threshold
      (new_calls (example_with (example_props\<lparr>contactForceEventThreshold := Some 5\<rparr>))
         (reactive_block
            (example_with (example_props\<lparr>contactForceEventThreshold := Some 5\<rparr>)))) =
      [SetContactForceEventThreshold 1, SetContactForceEventThreshold 5] \<and>
    map_option c_contactForceEventThreshold
      (collider (reactive_block
         (example_with (example_props\<lparr>contactForceEventThreshold := Some 5\<rparr>)))) =
      Some (Some 5)) \<and>
   (collider (example_with example_props) \<noteq> None \<and>
    filter is_threshold
      (new_calls (example_with example_props) (reactive_block (example_with example_props))) =
      [SetContactForceEventThreshold 1, SetContactForceEventThreshold 0] \<and>
    map_option c_contactForceEventThreshold
      (collider (reactive_block (example_with example_props))) = Some (Some 0))"
  using
    threshold_final_value [OF example_with_collider,
      of "example_props\<lparr>contactForceEventThreshold := Some 5\<rparr>"]
    threshold_final_value [OF example_with_collider, of example_props]
    example_with_collider
  by (simp add: example_with_props example_props_def)

text \<open>
  Claim C5. When restitution, friction, the two combine rules and the sensor flag are all
  undefined, a run of the reactive block on an existing collider leaves the collider with
  restitution 0, friction 0.7, both combine rules "average", sensor false, and the active
  collision types "all".
\<close>

theorem default_material:
  assumes "collider s \<noteq> None"
    and "restitution (props s) = None" and "restitutionCombineRule (props s) = None"
    and "friction (props s) = None" and "frictionCombineRule (props s) = None"
    and "sensor (props s) = None"
  shows "\<exists>c'. collider (reactive_block s) = Some c' \<and>
           c_restitution c' = Some 0 \<and> c_friction c' = Some 0.7 \<and>
           c_restitutionCombineRule c' = Some Rule_Average \<and>
           c_frictionCombineRule c' = Some Rule_Average \<and>
           c_sensor c' = Some False \<and> c_activeCollisionTypes c' = Some Types_ALL"
  using assms
  by (auto simp add: reactive_block_def reactive_calls_def nullish_def Let_def
      split: option.splits)

theorem default_material_witness:
  "collider example_mounted \<noteq> None \<and>
   restitution (props example_mounted) = None \<and>
   restitutionCombineRule (props example_mounted) = None \<and>
   friction (props example_mounted) = None \<and>
   frictionCombineRule (props example_mounted) = None \<and>
   sensor (props example_mounted) = None \<and>
   (\<exists>c'. collider (reactive_block example_mounted) = Some c' \<and>
      c_restitution c' = Some 0 \<and> c_friction c' = Some 0.7 \<and>
      c_restitutionCombineRule c' = Some Rule_Average \<and>
      c_frictionCombineRule c' = Some Rule_Average \<and>
      c_sensor c' = Some False \<and> c_activeCollisionTypes c' = Some Types_ALL)"
proof -
  have a: "restitution (props example_mounted) = None"
    and b: "restitutionCombineRule (props example_mounted) = None"
    and c: "friction (props example_mounted) = None"
    and d: "frictionCombineRule (props example_mounted) = None"
    and e: "sensor (props example_mounted) = None"
    by (simp_all add: example_mounted_props example_props_def)
  from default_material [OF example_mounted_collider a b c d e]
    example_mounted_collider a b c d e
  show ?thesis by simp
qed

subsection \<open>Mass configuration\<close>

text \<open>
  Claim C4, evaluated where the code departs from it. Density is the only one of the three
  that is supplied, and it is 0; the collider is in place. The reactive block calls none of
  the three mass setters, \<^verbatim>\<open>setDensity\<close> neither, and the collider's density stays as the
  engine set it.
\<close>

theorem zero_density_not_applied:
  "collider (example_with (example_props\<lparr>density := Some (Number 0)\<rparr>)) \<noteq> None \<and>
   density (props (example_with (example_props\<lparr>density := Some (Number 0)\<rparr>))) =
     Some (Number 0) \<and>
   mass (props (example_with (example_props\<lparr>density := Some (Number 0)\<rparr>))) = None \<and>
   massProperties (props (example_with (example_props\<lparr>density := Some (Number 0)\<rparr>))) = None \<and>
   filter is_mass_config
     (new_calls (example_with (example_props\<lparr>density := Some (Number 0)\<rparr>))
        (reactive_block (example_with (example_props\<lparr>density := Some (Number 0)\<rparr>)))) = [] \<and>
   map_option c_density
     (collider (reactive_block (example_with (example_props\<lparr>density := Some (Number 0)\<rparr>)))) =
     Some None"
  by (simp add: example_with_def onMount_def onMount_calls_def isAttached_def
      init_component_def Let_def reactive_block_def reactive_calls_def example_props_def
      createCollider_def)

text \<open>
  Where the two guards let the value through, the mass configuration is exclusive. In a run
  of the reactive block on an existing collider: if density is the only one of the three
  that is supplied and it is truthy, the only mass setter called is \<^verbatim>\<open>setDensity\<close> with it;
  if mass is the only one supplied and it is truthy, the only one called is \<^verbatim>\<open>setMass\<close>
  with it; if the mass properties are the only one supplied, the only one called is
  \<^verbatim>\<open>setMassProperties\<close> with them. A density or a mass that is \<^verbatim>\<open>NaN\<close> is skipped as 0 is.
\<close>

lemma mass_configuration_truthy:
  assumes "collider s \<noteq> None"
  shows "(density (props s) = Some d \<and> truthy d \<and> mass (props s) = None \<and>
          massProperties (props s) = None \<longrightarrow>
            filter is_mass_config (new_calls s (reactive_block s)) = [SetDensity d]) \<and>
         (density (props s) = None \<and> mass (props s) = Some m \<and> truthy m \<and>
          massProperties (props s) = None \<longrightarrow>
            filter is_mass_config (new_calls s (reactive_block s)) = [SetMass m]) \<and>
         (density (props s) = None \<and> mass (props s) = None \<and>
          massProperties (props s) = Some mp \<longrightarrow>
            filter is_mass_config (new_calls s (reactive_block s)) = [SetMassProperties mp])"
  using assms
  by (auto simp add: reactive_block_def reactive_calls_def Let_def)

lemma density_two_and_a_half:
  "filter is_mass_config
     (new_calls (example_with (example_props\<lparr>density := Some (Number 2.5)\<rparr>))
        (reactive_block (example_with (example_props\<lparr>density := Some (Number 2.5)\<rparr>)))) =
     [SetDensity (Number 2.5)]"
  using mass_configuration_truthy [OF example_with_collider,
      of "example_props\<lparr>density := Some (Number 2.5)\<rparr>" "Number 2.5"]
  by (simp add: example_with_props example_props_def)

lemma falsy_mass_configuration_skipped:
  assumes "collider s \<noteq> None" and "massProperties (props s) = None"
    and "density (props s) \<in> {None, Some (Number 0), Some NaN}"
    and "mass (props s) \<in> {None, Some (Number 0), Some NaN}"
  shows "filter is_mass_config (new_calls s (reactive_block s)) = []"
  using assms
  by (auto simp add: reactive_block_def reactive_calls_def Let_def)

text \<open>
  Claim C9. Changing the properties to ones with density 0 has the same effect as changing
  them to the same ones with density undefined: the same trace of calls and the same
  collider, and \<^verbatim>\<open>setDensity\<close> is not among the calls made. The same holds for mass 0 and
  \<^verbatim>\<open>setMass\<close>.
\<close>

theorem zero_density_as_unset:
  "calls (step (PropsChanged (p\<lparr>density := Some (Number 0)\<rparr>)) s) =
     calls (step (PropsChanged (p\<lparr>density := None\<rparr>)) s) \<and>
   collider (step (PropsChanged (p\<lparr>density := Some (Number 0)\<rparr>)) s) =
     collider (step (PropsChanged (p\<lparr>density := None\<rparr>)) s) \<and>
   filter is_SetDensity (new_calls s (step (PropsChanged (p\<lparr>density := Some (Number 0)\<rparr>)) s)) = [] \<and>
   calls (step (PropsChanged (p\<lparr>mass := Some (Number 0)\<rparr>)) s) =
     calls (step (PropsChanged (p\<lparr>mass := None\<rparr>)) s) \<and>
   collider (step (PropsChanged (p\<lparr>mass := Some (Number 0)\<rparr>)) s) =
     collider (step (PropsChanged (p\<lparr>mass := None\<rparr>)) s) \<and>
   filter is_SetMass (new_calls s (step (PropsChanged (p\<lparr>mass := Some (Number 0)\<rparr>)) s)) = []"
  by (cases "collider s")
     (simp_all add: reactive_block_def reactive_calls_def Let_def new_calls_def
       split: option.splits)

subsection \<open>Pose of a collider on a rigid body\<close>

lemma exec_call_wrt_parent:
  "\<not> is_pose_wrt_parent k \<Longrightarrow>
   c_translationWrtParent (exec_call k c) = c_translationWrtParent c \<and>
   c_rotationWrtParent (exec_call k c) = c_rotationWrtParent c"
  by (cases k) simp_all

lemma exec_calls_wrt_parent:
  "filter is_pose_wrt_parent ks = [] \<Longrightarrow>
   c_translationWrtParent (exec_calls ks c) = c_translationWrtParent c \<and>
   c_rotationWrtParent (exec_calls ks c) = c_rotationWrtParent c"
proof (induction ks arbitrary: c)
  case Nil
  then show ?case by simp
next
  case (Cons k ks)
  then have k: "\<not> is_pose_wrt_parent k" and ks: "filter is_pose_wrt_parent ks = []"
    by (auto split: if_splits)
  from Cons.IH [OF ks, of "exec_call k c"] exec_call_wrt_parent [OF k, of c]
  show ?case by simp
qed

lemma wrt_parent_reactive_calls [simp]: "filter is_pose_wrt_parent (reactive_calls s) = []"
  by (simp add: reactive_calls_def Let_def split: option.splits)

lemma step_attached:
  assumes "\<not> frameStarted s"
  shows "\<not> frameStarted (step e s) \<and>
         filter is_pose_wrt_parent (calls (step e s)) = filter is_pose_wrt_parent (calls s) \<and>
         relative_pose (step e s) = relative_pose s"
proof (cases e)
  case (PropsChanged p)
  then show ?thesis
    using assms exec_calls_wrt_parent [OF wrt_parent_reactive_calls]
    by (simp add: reactive_block_def relative_pose_def split: option.splits)
next
  case Frame
  then show ?thesis using assms by simp
next
  case (SceneChanged obj)
  then show ?thesis using assms by (simp add: relative_pose_def)
next
  case Destroy
  then show ?thesis
    using assms by (simp add: onDestroy_def relative_pose_def split: option.splits)
qed

lemma run_attached:
  "\<not> frameStarted s \<Longrightarrow>
   \<not> frameStarted (run es s) \<and>
   filter is_pose_wrt_parent (calls (run es s)) = filter is_pose_wrt_parent (calls s) \<and>
   relative_pose (run es s) = relative_pose s"
proof (induction es arbitrary: s)
  case Nil
  then show ?case by simp
next
  case (Cons e es)
  from step_attached [OF Cons.prems, of e] Cons.IH [of "step e s"]
  show ?case by simp
qed

lemma onMount_attached:
  "s1 = onMount (init_component p obj (Some rb) l h) \<Longrightarrow>
   \<not> frameStarted s1 \<and>
   filter is_pose_wrt_parent (calls s1) =
     [SetTranslationWrtParent (fst (attached_pose obj)),
      SetRotationWrtParent (snd (attached_pose obj))] \<and>
   relative_pose s1 = Some (Some (fst (attached_pose obj)), Some (snd (attached_pose obj)))"
  by (simp add: onMount_def init_component_def onMount_calls_def isAttached_def Let_def
      relative_pose_def createCollider_def)

text \<open>
  Claim C2. A component with a rigid body is mounted on the node \<open>obj\<close> and then lives through
  any events \<open>es\<close>: frames, changes of the node's transforms and of its ancestors', changes of
  its properties, its unmounting. In the whole trace the two setters of the pose relative to
  the parent are called once each, with the pose computed at the initialisation from \<open>obj\<close>;
  the collider still has that relative pose; and a further frame changes nothing at all.
\<close>

theorem wrt_parent_set_once:
  "let s' = run es (onMount (init_component p obj (Some rb) l h))
   in filter is_pose_wrt_parent (calls s') =
        [SetTranslationWrtParent (fst (attached_pose obj)),
         SetRotationWrtParent (snd (attached_pose obj))] \<and>
      relative_pose s' = Some (Some (fst (attached_pose obj)), Some (snd (attached_pose obj))) \<and>
      step Frame s' = s'"
proof -
  define s1 where "s1 = onMount (init_component p obj (Some rb) l h)"
  note m = onMount_attached [OF s1_def]
  from m have "\<not> frameStarted s1" by simp
  from run_attached [OF this, of es] m show ?thesis
    unfolding s1_def [symmetric] Let_def by simp
qed

subsubsection \<open>Which ancestor the pose is relative to\<close>

lemma traverseAncestors_fold:
  "traverseAncestors callback obj acc = fold callback (ancestors obj) acc"
  by (induction callback obj acc rule: traverseAncestors.induct) simp_all

lemma fold_rigidBody_callback:
  "fold rigidBody_callback xs acc =
     (case filter isRigidBody xs of
        [] \<Rightarrow> acc
      | a # as \<Rightarrow> (worldPosition (last (a # as)), invert (worldQuaternion (last (a # as)))))"
proof (induction xs arbitrary: acc)
  case Nil
  then show ?case by simp
next
  case (Cons x xs)
  then show ?case
    by (cases "filter isRigidBody xs") (simp_all add: rigidBody_callback_def)
qed

lemma sub_zero [simp]: "sub v new_Vector3 = v"
  by (simp add: sub_def new_Vector3_def)

lemma premultiply_identity [simp]: "premultiply q new_Quaternion = q"
  by (simp add: premultiply_def multiplyQuaternions_def new_Quaternion_def)

text \<open>The code takes the last flagged ancestor on the way to the root.\<close>

lemma attached_pose_anchor:
  "attached_pose obj =
     (case filter isRigidBody (ancestors obj) of
        [] \<Rightarrow> (worldPosition obj, worldQuaternion obj)
      | a # as \<Rightarrow>
          (sub (worldPosition obj) (worldPosition (last (a # as))),
           premultiply (worldQuaternion obj) (invert (worldQuaternion (last (a # as))))))"
  by (simp add: attached_pose_def traverseAncestors_fold fold_rigidBody_callback
      split: list.splits)

text \<open>With at most one flagged ancestor, that is the pose the specification words.\<close>

lemma attached_pose_single_anchor:
  "length (filter isRigidBody (ancestors obj)) \<le> 1 \<Longrightarrow>
   attached_pose obj = nearest_anchor_pose obj"
  by (auto simp add: attached_pose_anchor nearest_anchor_pose_def split: list.splits)

text \<open>
  Claim C3, evaluated where the code departs from it. The node's parent is flagged as a
  rigid body and so is the parent's parent. On mounting, the collider is given the node's
  pose relative to the parent's parent (the farthest flagged ancestor), which is not the
  pose relative to the parent (the nearest one) that the specification words.
\<close>

theorem nested_rigid_bodies_farthest_wins:
  "filter isRigidBody (ancestors nested_node) = [nested_inner, nested_outer] \<and>
   filter is_pose_wrt_parent
     (calls (onMount (init_component example_props nested_node (Some example_body) False 0))) =
     [SetTranslationWrtParent \<lparr>v_x = -3, v_y = 0, v_z = 0\<rparr>,
      SetRotationWrtParent \<lparr>q_x = 0, q_y = -1, q_z = 0, q_w = 0\<rparr>] \<and>
   sub (worldPosition nested_node) (worldPosition nested_outer) =
     \<lparr>v_x = -3, v_y = 0, v_z = 0\<rparr> \<and>
   premultiply (worldQuaternion nested_node) (invert (worldQuaternion nested_outer)) =
     \<lparr>q_x = 0, q_y = -1, q_z = 0, q_w = 0\<rparr> \<and>
   nearest_anchor_pose nested_node =
     (\<lparr>v_x = 1, v_y = 0, v_z = 0\<rparr>, \<lparr>q_x = 0, q_y = 0, q_z = 0, q_w = 1\<rparr>)"
  by (simp add: onMount_def onMount_calls_def isAttached_def Let_def attached_pose_anchor
      nearest_anchor_pose_def init_component_def nested_node_def nested_inner_def
      nested_outer_def sub_def premultiply_def multiplyQuaternions_def invert_def
      new_Quaternion_def)

text \<open>
  Claim C10. A component with a rigid body whose node has no ancestor flagged as a rigid
  body: mounting it calls the two setters of the pose relative to the parent once each, with
  the node's own world position and world rotation, and the collider has that pose.
\<close>

theorem unflagged_pose_unchanged:
  assumes "rigidBody s \<noteq> None" and "filter isRigidBody (ancestors (object s)) = []"
  shows "filter is_pose_wrt_parent (new_calls s (onMount s)) =
           [SetTranslationWrtParent (worldPosition (object s)),
            SetRotationWrtParent (worldQuaternion (object s))] \<and>
         relative_pose (onMount s) =
           Some (Some (worldPosition (object s)), Some (worldQuaternion (object s)))"
  using assms
  by (simp add: onMount_def onMount_calls_def isAttached_def Let_def attached_pose_anchor
      relative_pose_def createCollider_def new_calls_def)

theorem unflagged_pose_unchanged_witness:
  "rigidBody (init_component example_props unflagged_node (Some example_body) False 0) \<noteq> None \<and>
   filter isRigidBody
     (ancestors (object (init_component example_props unflagged_node (Some example_body) False 0)))
     = [] \<and>
   filter is_pose_wrt_parent
     (new_calls (init_component example_props unflagged_node (Some example_body) False 0)
        (onMount (init_component example_props unflagged_node (Some example_body) False 0))) =
     [SetTranslationWrtParent \<lparr>v_x = 2, v_y = 5, v_z = 0\<rparr>,
      SetRotationWrtParent \<lparr>q_x = 0, q_y = 1, q_z = 0, q_w = 0\<rparr>]"
proof -
  have a: "rigidBody (init_component example_props unflagged_node (Some example_body) False 0)
             \<noteq> None"
    by (simp add: init_component_def)
  have b: "filter isRigidBody
             (ancestors (object
                (init_component example_props unflagged_node (Some example_body) False 0))) = []"
    by (simp add: init_component_def unflagged_node_def example_node_def)
  have c: "worldPosition (object
             (init_component example_props unflagged_node (Some example_body) False 0)) =
             \<lparr>v_x = 2, v_y = 5, v_z = 0\<rparr>"
    and d: "worldQuaternion (object
             (init_component example_props unflagged_node (Some example_body) False 0)) =
             \<lparr>q_x = 0, q_y = 1, q_z = 0, q_w = 0\<rparr>"
    by (simp_all add: init_component_def unflagged_node_def)
  from unflagged_pose_unchanged [OF a b] a b show ?thesis
    unfolding c d by blast
qed

end
